theory Spec2Isabelle
  imports Main
begin

section \<open>Values, exceptions and observable events of \<open>app.py\<close>\<close>

text \<open>
  The script \<open>app.py\<close> is one Streamlit page: when the button is pressed it parses the
  filter text, connects to MongoDB, queries, builds a pandas frame, cleans it, serialises it
  and offers the bytes for download.  Everything it does is a call into a library
  (\<open>json\<close>, \<open>bson\<close>, \<open>pymongo\<close>, \<open>pandas\<close>, \<open>streamlit\<close>, \<open>logging\<close>).  The model keeps
  the script's own control flow (the nested \<open>try\<close>, the three \<open>except\<close> clauses, the
  \<open>finally\<close>, the \<open>if not data\<close>, the format switch, \<open>clean_data\<close>) and takes what the
  libraries answer as a parameter, the \<open>world\<close>.  What the script shows, logs and
  asks of the database is recorded, in order, as a list of events.
\<close>

text \<open>
  A dynamically typed value: what JSON decodes to, what a MongoDB document holds and what
  a frame cell holds.  \<open>Double\<close> keeps a float by its \<open>repr\<close>; \<open>Native\<close> is any other
  typed value (a datetime, a regular expression, binary data) by type name and \<open>repr\<close>.
  An \<open>ObjectId\<close> is kept by its 24 hexadecimal digits.
\<close>

datatype bson =
    Null
  | Bool bool
  | Integer int
  | Double string
  | Str string
  | Arr "bson list"
  | Doc "(string \<times> bson) list"
  | ObjectId string
  | Native string string

text \<open>pandas marks a missing cell with the float \<open>nan\<close>.\<close>

definition nan :: bson where
  "nan = Double ''nan''"

text \<open>A MongoDB document as \<open>find\<close> returns it: a Python dict, keys in insertion order.\<close>

type_synonym document = "(string \<times> bson) list"

text \<open>
  The exceptions the script can see, by the classes its \<open>except\<close> clauses tell apart; each
  carries \<open>str(e)\<close>.  \<open>JSONDecodeError\<close>, \<open>ServerSelectionTimeoutError\<close>,
  \<open>OperationFailure\<close> stand for the class and its subclasses; \<open>OtherException\<close> is any
  other instance of \<open>Exception\<close>.  \<open>StopException\<close> is what \<open>st.stop()\<close> raises; like
  \<open>KeyboardInterrupt\<close> and \<open>SystemExit\<close> (here \<open>BaseException\<close>) it derives from
  \<open>BaseException\<close> and not from \<open>Exception\<close>.
\<close>

datatype exn =
    JSONDecodeError string
  | ServerSelectionTimeoutError string
  | OperationFailure string
  | OtherException string
  | StopException
  | BaseException string

fun is_Exception :: "exn \<Rightarrow> bool" where
  "is_Exception StopException = False"
| "is_Exception (BaseException m) = False"
| "is_Exception e = True"

text \<open>An \<open>io.BytesIO\<close>: its bytes and the position of the next read or write.\<close>

record BytesIO =
  getvalue :: string
  tell :: nat

definition BytesIO_new :: BytesIO where
  "BytesIO_new = \<lparr>getvalue = [], tell = 0\<rparr>"

definition BytesIO_write :: "BytesIO \<Rightarrow> string \<Rightarrow> BytesIO" where
  "BytesIO_write b bs =
     \<lparr>getvalue = take (tell b) (getvalue b)
                 @ replicate (tell b - length (getvalue b)) (CHR 0x00)
                 @ bs
                 @ drop (tell b + length bs) (getvalue b),
      tell = tell b + length bs\<rparr>"

definition BytesIO_seek :: "BytesIO \<Rightarrow> nat \<Rightarrow> BytesIO" where
  "BytesIO_seek b n = b\<lparr>tell := n\<rparr>"

text \<open>
  What a run does that can be observed from outside, in order: the Streamlit widgets it
  draws, the log lines it writes, and the calls it makes to the database driver.
\<close>

datatype event =
    St_error string
  | St_warning string
  | St_success string
  | St_download_button string BytesIO string string
  | Logging_info string
  | Logging_warning string
  | Logging_error string
  | MongoClient_call string nat
  | Server_info_call
  | Getitem_call string string
  | Find_call bson
  | Close_call

text \<open>
  A pandas frame: the number of rows (its \<open>RangeIndex\<close>) and the columns in order, each a
  name with its cells.
\<close>

record frame =
  nrows :: nat
  cols :: "(string \<times> bson list) list"

definition columns :: "frame \<Rightarrow> string list" where
  "columns df = map fst (cols df)"

text \<open>In a pandas frame every column is as long as the index.\<close>

definition rectangular :: "frame \<Rightarrow> bool" where
  "rectangular df = list_all (\<lambda>(name, xs). length xs = nrows df) (cols df)"

text \<open>
  The libraries.  Each call either returns or raises (\<open>Inl\<close>):
  \<^item> \<open>json_loads t\<close> is \<open>json.loads(t, object_hook=json_util.object_hook)\<close>;
  \<^item> \<open>MongoClient uri ms\<close> is the constructor with \<open>serverSelectionTimeoutMS=ms\<close>,
    returning a handle;
  \<^item> \<open>server_info c\<close> is the reachability check;
  \<^item> \<open>getitem c db col\<close> is \<open>client[db_name][col_name]\<close>;
  \<^item> \<open>collection_find c db col q\<close> is \<open>list(collection.find(q))\<close>;
  \<^item> \<open>str_builtin\<close> is \<open>str\<close>;
  \<^item> \<open>csv_encode\<close> and \<open>xlsx_encode\<close> turn the grid of cells a frame is written as into the
    bytes of a delimited text and of a workbook with one sheet (the second takes the
    engine's name).
\<close>

record 'h world =
  json_loads :: "string \<Rightarrow> exn + bson"
  MongoClient :: "string \<Rightarrow> nat \<Rightarrow> exn + 'h"
  server_info :: "'h \<Rightarrow> exn option"
  getitem :: "'h \<Rightarrow> string \<Rightarrow> string \<Rightarrow> exn option"
  collection_find :: "'h \<Rightarrow> string \<Rightarrow> string \<Rightarrow> bson \<Rightarrow> exn + document list"
  str_builtin :: "bson \<Rightarrow> string"
  csv_encode :: "bson list list \<Rightarrow> exn + string"
  xlsx_encode :: "string \<Rightarrow> bson list list \<Rightarrow> exn + string"

text \<open>What the user entered in the sidebar and the form.\<close>

record inputs =
  mongo_uri :: string
  db_name :: string
  col_name :: string
  filter_input :: string
  file_format :: string

section \<open>Text of the messages\<close>

text \<open>
  Strings are bytes here, so the three emoji of the messages are their UTF-8 encodings.
\<close>

definition cross_mark :: string where
  "cross_mark = [CHR 0xE2, CHR 0x9D, CHR 0x8C]"

definition check_mark :: string where
  "check_mark = [CHR 0xE2, CHR 0x9C, CHR 0x85]"

definition inbox_tray :: string where
  "inbox_tray = [CHR 0xF0, CHR 0x9F, CHR 0x93, CHR 0xA5]"

text \<open>\<open>str(n)\<close> for a length.\<close>

fun str_nat :: "nat \<Rightarrow> string" where
  "str_nat n =
     (if n < 10 then [char_of (48 + n)]
      else str_nat (n div 10) @ [char_of (48 + n mod 10)])"

declare str_nat.simps [simp del]

definition invalid_json_banner :: "string \<Rightarrow> string" where
  "invalid_json_banner e = cross_mark @ '' Invalid JSON format in Filter Criteria: '' @ e"

definition timeout_banner :: string where
  "timeout_banner = cross_mark @
     '' Connection Timeout: Could not connect to MongoDB host. Check your VPN or Host settings.''"

definition auth_banner :: string where
  "auth_banner = cross_mark @ '' Authentication or Database Error.''"

definition unexpected_banner :: "string \<Rightarrow> string" where
  "unexpected_banner e = cross_mark @ '' An unexpected error occurred: '' @ e"

definition details_banner :: "string \<Rightarrow> string" where
  "details_banner e = ''Details: '' @ e"

definition no_records_msg :: string where
  "no_records_msg = ''No records found matching the criteria.''"

section \<open>The frame: \<open>pd.DataFrame\<close>, \<open>clean_data\<close>, the written grid\<close>

text \<open>
  Modelled from the spec: \<open>pd.DataFrame(data)\<close> (line 89) is pandas, which is not under
  \<open>src/\<close>.  \<open>discover\<close>, \<open>union_keys\<close>, \<open>cell\<close> and \<open>DataFrame\<close> follow the spec (4.3 and
  9): a key discovery pass over the full list of records gives the columns, the union of
  all keys in first-occurrence order (\<open>discover\<close> is the step for the keys of one record);
  the rows are the record values aligned to those columns, a missing key filled with the
  null marker.  A Python dict holds a key once, so \<open>map_of\<close> reads the value of a key.
\<close>

fun discover :: "string list \<Rightarrow> string list \<Rightarrow> string list" where
  "discover seen [] = seen"
| "discover seen (k # ks) = discover (if k \<in> set seen then seen else seen @ [k]) ks"

fun union_keys :: "string list \<Rightarrow> document list \<Rightarrow> string list" where
  "union_keys seen [] = seen"
| "union_keys seen (r # rs) = union_keys (discover seen (map fst r)) rs"

definition cell :: "document \<Rightarrow> string \<Rightarrow> bson" where
  "cell r k = (case map_of r k of Some v \<Rightarrow> v | None \<Rightarrow> nan)"

definition DataFrame :: "document list \<Rightarrow> frame" where
  "DataFrame data =
     \<lparr>nrows = length data,
      cols = map (\<lambda>k. (k, map (\<lambda>r. cell r k) data)) (union_keys [] data)\<rparr>"

text \<open>
  Where a key is first seen in the stream of all keys of all records, for stating the order
  of the columns.
\<close>

definition key_stream :: "document list \<Rightarrow> string list" where
  "key_stream data = concat (map (map fst) data)"

definition first_index :: "string list \<Rightarrow> string \<Rightarrow> nat" where
  "first_index ks a = length (takeWhile (\<lambda>k. k \<noteq> a) ks)"

text \<open>
  \<open>clean_data\<close> (lines 46 to 50).  \<open>df["_id"].astype(str)\<close> applies \<open>str\<close> to every cell of
  the column; the assignment puts the result back under the same name, in place.
\<close>

definition astype_str :: "(bson \<Rightarrow> string) \<Rightarrow> bson list \<Rightarrow> bson list" where
  "astype_str str xs = map (\<lambda>x. Str (str x)) xs"

definition clean_data :: "(bson \<Rightarrow> string) \<Rightarrow> frame \<Rightarrow> frame" where
  "clean_data str df =
     (if ''_id'' \<in> set (columns df)
      then df\<lparr>cols := map (\<lambda>(name, xs). if name = ''_id'' then (name, astype_str str xs)
                                       else (name, xs)) (cols df)\<rparr>
      else df)"

text \<open>
  Modelled from the spec: \<open>to_csv\<close> and \<open>to_excel\<close> (lines 98 and 102) are pandas, which is
  not under \<open>src/\<close>.  \<open>row_at\<close> and \<open>table_rows\<close> are the grid of cells both write, after the
  spec (4.4): the header row is the column names, one row follows per record, and a row
  index column comes first unless \<open>index=False\<close> is passed.  The bytes the grid is encoded
  as are left to the \<open>world\<close>.
\<close>

definition row_at :: "frame \<Rightarrow> nat \<Rightarrow> bson list" where
  "row_at df i = map (\<lambda>(name, xs). xs ! i) (cols df)"

definition table_rows :: "frame \<Rightarrow> bool \<Rightarrow> bson list list" where
  "table_rows df with_index =
     ((if with_index then [Str []] else []) @ map Str (columns df))
     # map (\<lambda>i. (if with_index then [Integer (int i)] else []) @ row_at df i) [0..<nrows df]"

section \<open>The run: lines 53 to 137\<close>

text \<open>
  Lines 57 to 63.  Only \<open>json.JSONDecodeError\<close> is caught here; the handler shows and logs
  the error and calls \<open>st.stop()\<close>, which raises \<open>StopException\<close>.  Any other exception of
  the decoder or of its hook leaves the inner \<open>try\<close> as it is.
\<close>

definition parse_stage :: "'h world \<Rightarrow> string \<Rightarrow> event list \<times> (exn + bson)" where
  "parse_stage w text =
     (case json_loads w text of
        Inr query_filter \<Rightarrow> ([], Inr query_filter)
      | Inl (JSONDecodeError e) \<Rightarrow>
          ([St_error (invalid_json_banner e), Logging_error (''Invalid JSON input: '' @ e)],
           Inl StopException)
      | Inl e \<Rightarrow> ([], Inl e))"

text \<open>Lines 93 to 106: the buffer, the content type and the file name.\<close>

definition export_stage ::
  "'h world \<Rightarrow> string \<Rightarrow> frame \<Rightarrow> exn + (BytesIO \<times> string \<times> string)" where
  "export_stage w fmt df =
     (if fmt = ''CSV''
      then (case csv_encode w (table_rows df False) of
              Inl e \<Rightarrow> Inl e
            | Inr bs \<Rightarrow> Inr (BytesIO_seek (BytesIO_write BytesIO_new bs) 0, ''text/csv'', ''mongo_export.csv''))
      else (case xlsx_encode w ''openpyxl'' (table_rows df False) of
              Inl e \<Rightarrow> Inl e
            | Inr bs \<Rightarrow>
                Inr (BytesIO_seek (BytesIO_write BytesIO_new bs) 0,
                     ''application/vnd.openxmlformats-officedocument.spreadsheetml.sheet'',
                     ''mongo_export.xlsx'')))"

text \<open>Lines 81 to 116: the empty result, or the frame, the export and the download button.\<close>

definition result_stage ::
  "'h world \<Rightarrow> inputs \<Rightarrow> document list \<Rightarrow> event list \<times> exn option" where
  "result_stage w i data =
     (if data = []
      then ([St_warning no_records_msg, Logging_warning no_records_msg], None)
      else
        (let retrieved = [Logging_info (''Retrieved '' @ str_nat (length data) @ '' records.'')];
             df = clean_data (str_builtin w) (DataFrame data)
         in case export_stage w (file_format i) df of
              Inl e \<Rightarrow> (retrieved, Some e)
            | Inr (buffer, mime_type, file_name) \<Rightarrow>
                (retrieved @
                 [St_success (check_mark @ '' Successfully fetched '' @ str_nat (length data)
                              @ '' records!''),
                  St_download_button (inbox_tray @ '' Download '' @ file_format i)
                                     buffer file_name mime_type,
                  Logging_info ''Download button generated successfully.''],
                 None)))"

text \<open>Lines 70 to 116, with the client in hand.\<close>

definition query_stage ::
  "'h world \<Rightarrow> inputs \<Rightarrow> 'h \<Rightarrow> bson \<Rightarrow> event list \<times> exn option" where
  "query_stage w i client query_filter =
     (case server_info w client of
        Some e \<Rightarrow> ([Server_info_call], Some e)
      | None \<Rightarrow>
          (let ev1 = [Server_info_call, Logging_info ''Connection successful.'',
                      Getitem_call (db_name i) (col_name i)]
           in case getitem w client (db_name i) (col_name i) of
                Some e \<Rightarrow> (ev1, Some e)
              | None \<Rightarrow>
                  (let ev2 = ev1 @
                         [Logging_info (''Querying collection: '' @ col_name i
                                        @ '' with filter: '' @ str_builtin w query_filter),
                          Find_call query_filter]
                   in case collection_find w client (db_name i) (col_name i) query_filter of
                        Inl e \<Rightarrow> (ev2, Some e)
                      | Inr data \<Rightarrow>
                          (case result_stage w i data of (ev3, r) \<Rightarrow> (ev2 @ ev3, r)))))"

text \<open>
  The body of the outer \<open>try\<close> (lines 56 to 116): the events, the value of the variable
  \<open>client\<close> when the body is left, and the exception it is left with, if any.
\<close>

definition try_body :: "'h world \<Rightarrow> inputs \<Rightarrow> event list \<times> 'h option \<times> exn option" where
  "try_body w i =
     (case parse_stage w (filter_input i) of
        (ev0, Inl e) \<Rightarrow> (ev0, None, Some e)
      | (ev0, Inr query_filter) \<Rightarrow>
          (let ev1 = ev0 @
                 [Logging_info (''Attempting to connect to '' @ mongo_uri i @ ''...''),
                  MongoClient_call (mongo_uri i) 5000]
           in case MongoClient w (mongo_uri i) 5000 of
                Inl e \<Rightarrow> (ev1, None, Some e)
              | Inr client \<Rightarrow>
                  (case query_stage w i client query_filter of
                     (ev2, r) \<Rightarrow> (ev1 @ ev2, Some client, r))))"

text \<open>
  The three \<open>except\<close> clauses (lines 118 to 132), tried in order: the events of the clause
  that matches, and the exception that goes on when none does.
\<close>

fun except_clauses :: "exn \<Rightarrow> event list \<times> exn option" where
  "except_clauses (ServerSelectionTimeoutError e) =
     ([St_error timeout_banner, St_error (details_banner e),
       Logging_error (''Connection Timeout: '' @ e)], None)"
| "except_clauses (OperationFailure e) =
     ([St_error auth_banner, St_error (details_banner e),
       Logging_error (''Operational Failure: '' @ e)], None)"
| "except_clauses (JSONDecodeError e) =
     ([St_error (unexpected_banner e), Logging_error (''Unexpected Error: '' @ e)], None)"
| "except_clauses (OtherException e) =
     ([St_error (unexpected_banner e), Logging_error (''Unexpected Error: '' @ e)], None)"
| "except_clauses StopException = ([], Some StopException)"
| "except_clauses (BaseException m) = ([], Some (BaseException m))"

text \<open>
  The \<open>finally\<close> clause (lines 134 to 137).  A \<open>MongoClient\<close> object is truthy, so
  \<open>if client\<close> asks whether the variable still holds \<open>None\<close>.
\<close>

definition finally_clause :: "'h option \<Rightarrow> event list" where
  "finally_clause client =
     (case client of
        None \<Rightarrow> []
      | Some c \<Rightarrow> [Close_call, Logging_info ''MongoDB connection closed.''])"

text \<open>
  One press of the button: all events in order, the final value of \<open>client\<close>, and the
  exception that leaves the script (\<open>None\<close> when the script runs to its end).
\<close>

record 'h outcome =
  events :: "event list"
  client_var :: "'h option"
  raised :: "exn option"

text \<open>The exception the body of the \<open>try\<close> is left with, the one the \<open>except\<close> clauses see.\<close>

definition left_with :: "'h world \<Rightarrow> inputs \<Rightarrow> exn option" where
  "left_with w i = snd (snd (try_body w i))"

definition run :: "'h world \<Rightarrow> inputs \<Rightarrow> 'h outcome" where
  "run w i =
     (case try_body w i of
        (ev, client, None) \<Rightarrow>
          \<lparr>events = ev @ finally_clause client, client_var = client, raised = None\<rparr>
      | (ev, client, Some e) \<Rightarrow>
          (case except_clauses e of
             (ev', r) \<Rightarrow>
               \<lparr>events = ev @ ev' @ finally_clause client, client_var = client, raised = r\<rparr>))"

section \<open>What the caller is shown\<close>

text \<open>
  The four failure kinds of the spec (section 6).  The script has no value of that type:
  it shows a banner with \<open>st.error\<close>.  \<open>banner_kind\<close> reads the kind back from the text
  of a banner, and \<open>failure_kinds\<close> from the events of a run; the "Details" banners of the
  two middle clauses name no kind of their own.
\<close>

datatype failure_kind = FilterSyntax | ConnectionTimeout | AuthorizationFailure | Unclassified

definition startswith :: "string \<Rightarrow> string \<Rightarrow> bool" where
  "startswith s p = (take (length p) s = p)"

definition banner_kind :: "string \<Rightarrow> failure_kind option" where
  "banner_kind s =
     (if startswith s (invalid_json_banner []) then Some FilterSyntax
      else if s = timeout_banner then Some ConnectionTimeout
      else if s = auth_banner then Some AuthorizationFailure
      else if startswith s (unexpected_banner []) then Some Unclassified
      else None)"

fun failure_kinds :: "event list \<Rightarrow> failure_kind list" where
  "failure_kinds [] = []"
| "failure_kinds (St_error s # evs) =
     (case banner_kind s of Some k \<Rightarrow> k # failure_kinds evs | None \<Rightarrow> failure_kinds evs)"
| "failure_kinds (ev # evs) = failure_kinds evs"

fun closes :: "event list \<Rightarrow> nat" where
  "closes [] = 0"
| "closes (Close_call # evs) = Suc (closes evs)"
| "closes (ev # evs) = closes evs"

fun is_database_call :: "event \<Rightarrow> bool" where
  "is_database_call (MongoClient_call uri ms) = True"
| "is_database_call Server_info_call = True"
| "is_database_call (Getitem_call db col) = True"
| "is_database_call (Find_call q) = True"
| "is_database_call ev = False"

fun is_download :: "event \<Rightarrow> bool" where
  "is_download (St_download_button label b name mime) = True"
| "is_download ev = False"

text \<open>
  The kind the outer \<open>except\<close> clauses (lines 118 to 132) give an exception, by its class:
  one kind for an instance of \<open>Exception\<close>, none for what they do not catch.  An exception
  is surfaced by a run when the banners of the run name exactly that kind and, if it is an
  \<open>Exception\<close>, nothing leaves the script.
\<close>

fun outer_kind :: "exn \<Rightarrow> failure_kind list" where
  "outer_kind (ServerSelectionTimeoutError e) = [ConnectionTimeout]"
| "outer_kind (OperationFailure e) = [AuthorizationFailure]"
| "outer_kind (JSONDecodeError e) = [Unclassified]"
| "outer_kind (OtherException e) = [Unclassified]"
| "outer_kind StopException = []"
| "outer_kind (BaseException m) = []"

definition surfaced_as :: "'h outcome \<Rightarrow> exn \<Rightarrow> bool" where
  "surfaced_as r e =
     (failure_kinds (events r) = outer_kind e
      \<and> raised r = (if is_Exception e then None else Some e))"

text \<open>
  What the serialiser chosen by the form answers for the records of a result: the call of
  line 98 or of line 102.
\<close>

definition encoded :: "'h world \<Rightarrow> inputs \<Rightarrow> document list \<Rightarrow> exn + string" where
  "encoded w i data =
     (if file_format i = ''CSV''
      then csv_encode w (table_rows (clean_data (str_builtin w) (DataFrame data)) False)
      else xlsx_encode w ''openpyxl''
             (table_rows (clean_data (str_builtin w) (DataFrame data)) False))"

section \<open>Example worlds\<close>

text \<open>
  A \<open>str\<close> for the examples: an ObjectId prints as its 24 hexadecimal digits, a string as
  itself.  Only scalars occur in the examples; a list or a document prints as dots.
\<close>

fun example_str :: "bson \<Rightarrow> string" where
  "example_str Null = ''None''"
| "example_str (Bool b) = (if b then ''True'' else ''False'')"
| "example_str (Integer n) = (if n < 0 then ''-'' @ str_nat (nat (- n)) else str_nat (nat n))"
| "example_str (Double r) = r"
| "example_str (Str s) = s"
| "example_str (ObjectId h) = h"
| "example_str (Native t r) = r"
| "example_str (Arr xs) = ''[...]''"
| "example_str (Doc kvs) = ''{...}''"

text \<open>A delimited text without quoting, and a stand-in for the bytes of a workbook.\<close>

fun join :: "string \<Rightarrow> string list \<Rightarrow> string" where
  "join sep [] = []"
| "join sep [x] = x"
| "join sep (x # y # ys) = x @ sep @ join sep (y # ys)"

definition example_csv :: "bson list list \<Rightarrow> string" where
  "example_csv g = concat (map (\<lambda>r. join '','' (map example_str r) @ [CHR 0x0A]) g)"

text \<open>
  Three documents of a collection of orders.  The second has no \<open>status\<close>, the third
  brings a key of its own; \<open>owner\<close> holds an ObjectId, as a reference to another
  collection does.
\<close>

definition orders :: "document list" where
  "orders =
     [[(''_id'', ObjectId ''65a1f0c2e4b0a1b2c3d4e5f6''), (''status'', Str ''ACTIVE''),
       (''owner'', ObjectId ''5f43a1b2c3d4e5f607182930'')],
      [(''_id'', ObjectId ''65a1f0c2e4b0a1b2c3d4e5f7''),
       (''owner'', ObjectId ''5f43a1b2c3d4e5f607182931'')],
      [(''_id'', ObjectId ''65a1f0c2e4b0a1b2c3d4e5f8''), (''qty'', Integer 3),
       (''status'', Str ''ACTIVE'')]]"

text \<open>
  A server that answers: the filter \<open>{"status": "ACTIVE"}\<close> decodes, the filter
  \<open>{"status":}\<close> of scenario D does not, and the filter \<open>{"_id": {"$oid": "xyz"}}\<close> is
  well-formed JSON on which \<open>bson\<close>'s hook raises \<open>InvalidId\<close> (an \<open>Exception\<close> that is not
  a \<open>JSONDecodeError\<close>).  \<open>find\<close> answers with \<open>found\<close>.
\<close>

definition active_filter :: string where
  \<open>active_filter = ''{"status": "ACTIVE"}''\<close>

definition malformed_filter :: string where
  \<open>malformed_filter = ''{"status":}''\<close>

definition bad_oid_filter :: string where
  \<open>bad_oid_filter = ''{"_id": {"$oid": "xyz"}}''\<close>

definition expecting_value :: string where
  "expecting_value = ''Expecting value: line 1 column 11 (char 10)''"

definition invalid_id :: string where
  "invalid_id = [CHR 0x27] @ ''xyz'' @ [CHR 0x27]
     @ '' is not a valid ObjectId, it must be a 12-byte input or a 24-character hex string''"

definition example_loads :: "string \<Rightarrow> exn + bson" where
  "example_loads t =
     (if t = active_filter then Inr (Doc [(''status'', Str ''ACTIVE'')])
      else if t = bad_oid_filter then Inl (OtherException invalid_id)
      else Inl (JSONDecodeError expecting_value))"

definition server :: "(exn + document list) \<Rightarrow> nat world" where
  "server found =
     \<lparr>json_loads = example_loads,
      MongoClient = (\<lambda>uri ms. Inr 1),
      server_info = (\<lambda>c. None),
      getitem = (\<lambda>c db col. None),
      collection_find = (\<lambda>c db col q. found),
      str_builtin = example_str,
      csv_encode = (\<lambda>g. Inr (example_csv g)),
      xlsx_encode = (\<lambda>engine g. Inr (''PK'' @ example_csv g))\<rparr>"

text \<open>A host that cannot be reached: the reachability check times out.\<close>

definition unreachable :: "nat world" where
  "unreachable =
     (server (Inr []))\<lparr>server_info :=
        (\<lambda>c. Some (ServerSelectionTimeoutError ''localhost:27017: timed out''))\<rparr>"

definition form :: "string \<Rightarrow> string \<Rightarrow> inputs" where
  "form text fmt =
     \<lparr>mongo_uri = ''mongodb://localhost:27017/'', db_name = ''shop'', col_name = ''orders'',
      filter_input = text, file_format = fmt\<rparr>"

text \<open>
  Two frames: one whose documents refer to their owner by ObjectId, one without an
  \<open>_id\<close> column.
\<close>

definition owner_frame :: frame where
  "owner_frame =
     \<lparr>nrows = 2,
      cols = [(''_id'', [ObjectId ''65a1f0c2e4b0a1b2c3d4e5f6'',
                        ObjectId ''65a1f0c2e4b0a1b2c3d4e5f7'']),
              (''owner'', [ObjectId ''5f43a1b2c3d4e5f607182930'',
                          ObjectId ''5f43a1b2c3d4e5f607182931''])]\<rparr>"

definition plain_frame :: frame where
  "plain_frame =
     \<lparr>nrows = 2,
      cols = [(''status'', [Str ''ACTIVE'', Str ''DONE'']),
              (''qty'', [Integer 3, Integer 5])]\<rparr>"

section \<open>Lemmas about the stages\<close>

lemma closes_append [simp]: "closes (xs @ ys) = closes xs + closes ys"
  by (induction xs rule: closes.induct) auto

lemma failure_kinds_append [simp]:
  "failure_kinds (xs @ ys) = failure_kinds xs @ failure_kinds ys"
  by (induction xs rule: failure_kinds.induct) (auto split: option.splits)

lemma banner_kind_invalid_json [simp]: "banner_kind (invalid_json_banner m) = Some FilterSyntax"
  by (simp add: banner_kind_def startswith_def invalid_json_banner_def)

lemma banner_kind_timeout [simp]: "banner_kind timeout_banner = Some ConnectionTimeout"
  by (simp add: banner_kind_def startswith_def invalid_json_banner_def timeout_banner_def
        cross_mark_def)

lemma banner_kind_auth [simp]: "banner_kind auth_banner = Some AuthorizationFailure"
  by (simp add: banner_kind_def startswith_def invalid_json_banner_def timeout_banner_def
        auth_banner_def cross_mark_def)

lemma banner_kind_unexpected [simp]: "banner_kind (unexpected_banner m) = Some Unclassified"
  by (simp add: banner_kind_def startswith_def invalid_json_banner_def timeout_banner_def
        auth_banner_def unexpected_banner_def cross_mark_def)

lemma banner_kind_details [simp]: "banner_kind (details_banner m) = None"
  by (simp add: banner_kind_def startswith_def invalid_json_banner_def timeout_banner_def
        auth_banner_def unexpected_banner_def details_banner_def cross_mark_def)

lemma closes_parse_stage [simp]: "closes (fst (parse_stage w t)) = 0"
  by (simp add: parse_stage_def split: sum.splits exn.splits)

lemma closes_result_stage [simp]: "closes (fst (result_stage w i data)) = 0"
  by (simp add: result_stage_def Let_def split: sum.splits prod.splits)

lemma closes_query_stage [simp]: "closes (fst (query_stage w i c q)) = 0"
proof -
  have "closes ev = 0" if "result_stage w i data = (ev, r)" for data ev r
    using closes_result_stage [of w i data] that by simp
  then show ?thesis
    by (auto simp: query_stage_def Let_def split: option.splits sum.splits prod.splits)
qed

lemma closes_try_body [simp]: "closes (fst (try_body w i)) = 0"
proof (cases "parse_stage w (filter_input i)")
  case (Pair ev0 r)
  have p: "closes ev0 = 0" using closes_parse_stage [of w "filter_input i"] Pair by simp
  have q: "closes (fst (query_stage w i c q)) = 0" for c q by simp
  show ?thesis
  proof (cases r)
    case (Inl e)
    with Pair p show ?thesis by (simp add: try_body_def)
  next
    case (Inr qf)
    show ?thesis
    proof (cases "MongoClient w (mongo_uri i) 5000")
      case (Inl e)
      with Pair Inr p show ?thesis by (simp add: try_body_def)
    next
      case c: (Inr c)
      obtain ev2 r2 where qs: "query_stage w i c qf = (ev2, r2)" by (cases "query_stage w i c qf")
      with q [of c qf] have "closes ev2 = 0" by simp
      with Pair Inr c p qs show ?thesis by (simp add: try_body_def)
    qed
  qed
qed

lemma closes_except_clauses [simp]: "closes (fst (except_clauses e)) = 0"
  by (cases e) simp_all

lemma closes_finally_clause [simp]:
  "closes (finally_clause client) = (case client of None \<Rightarrow> 0 | Some c \<Rightarrow> 1)"
  by (simp add: finally_clause_def split: option.splits)

lemma run_events:
  "events (run w i) =
     fst (try_body w i)
     @ (case snd (snd (try_body w i)) of None \<Rightarrow> [] | Some e \<Rightarrow> fst (except_clauses e))
     @ finally_clause (fst (snd (try_body w i)))"
  by (cases "try_body w i") (auto simp: run_def split: option.splits prod.splits)

lemma run_client_var: "client_var (run w i) = fst (snd (try_body w i))"
  by (cases "try_body w i") (auto simp: run_def split: option.splits prod.splits)

lemma run_raised:
  "raised (run w i) =
     (case snd (snd (try_body w i)) of None \<Rightarrow> None | Some e \<Rightarrow> snd (except_clauses e))"
  by (cases "try_body w i") (auto simp: run_def split: option.splits prod.splits)

lemma try_body_client:
  "fst (snd (try_body w i)) =
     (case json_loads w (filter_input i) of
        Inl e \<Rightarrow> None
      | Inr q \<Rightarrow> (case MongoClient w (mongo_uri i) 5000 of Inl e \<Rightarrow> None | Inr c \<Rightarrow> Some c))"
  by (simp add: try_body_def parse_stage_def Let_def split: sum.splits exn.splits prod.splits)

lemma failure_kinds_result_stage [simp]: "failure_kinds (fst (result_stage w i data)) = []"
  by (simp add: result_stage_def Let_def split: sum.splits prod.splits)

lemma failure_kinds_query_stage [simp]: "failure_kinds (fst (query_stage w i c q)) = []"
proof -
  have "failure_kinds ev = []" if "result_stage w i data = (ev, r)" for data ev r
    using failure_kinds_result_stage [of w i data] that by simp
  then show ?thesis
    by (auto simp: query_stage_def Let_def split: option.splits sum.splits prod.splits)
qed

lemma database_calls_parse_stage [simp]:
  "filter is_database_call (fst (parse_stage w t)) = []"
  by (simp add: parse_stage_def split: sum.splits exn.splits)

lemma database_calls_except_clauses [simp]:
  "filter is_database_call (fst (except_clauses e)) = []"
  by (cases e) simp_all

lemma try_body_decode_error:
  "json_loads w (filter_input i) = Inl e \<Longrightarrow>
   try_body w i =
     (case e of
        JSONDecodeError m \<Rightarrow>
          ([St_error (invalid_json_banner m), Logging_error (''Invalid JSON input: '' @ m)],
           None, Some StopException)
      | _ \<Rightarrow> ([], None, Some e))"
  by (simp add: try_body_def parse_stage_def split: exn.splits)

lemma try_body_decoded:
  "json_loads w (filter_input i) = Inr q \<Longrightarrow>
   try_body w i =
     (let ev1 = [Logging_info (''Attempting to connect to '' @ mongo_uri i @ ''...''),
                 MongoClient_call (mongo_uri i) 5000]
      in case MongoClient w (mongo_uri i) 5000 of
           Inl e \<Rightarrow> (ev1, None, Some e)
         | Inr client \<Rightarrow>
             (ev1 @ fst (query_stage w i client q), Some client,
              snd (query_stage w i client q)))"
  by (simp add: try_body_def parse_stage_def Let_def split: sum.splits prod.splits)

lemma failure_kinds_try_body:
  "failure_kinds (fst (try_body w i)) =
     (case json_loads w (filter_input i) of
        Inl (JSONDecodeError m) \<Rightarrow> [FilterSyntax]
      | _ \<Rightarrow> [])"
proof (cases "json_loads w (filter_input i)")
  case (Inl e)
  then show ?thesis
    by (cases e) (simp_all add: try_body_decode_error)
next
  case (Inr q)
  then show ?thesis
    by (simp add: try_body_decoded Let_def split: sum.splits)
qed

lemma failure_kinds_except_clauses:
  "failure_kinds (fst (except_clauses e)) =
     (case e of
        ServerSelectionTimeoutError m \<Rightarrow> [ConnectionTimeout]
      | OperationFailure m \<Rightarrow> [AuthorizationFailure]
      | JSONDecodeError m \<Rightarrow> [Unclassified]
      | OtherException m \<Rightarrow> [Unclassified]
      | _ \<Rightarrow> [])"
  by (cases e) simp_all

lemma failure_kinds_finally_clause [simp]: "failure_kinds (finally_clause c) = []"
  by (simp add: finally_clause_def split: option.splits)

lemma left_with_decode_error:
  "json_loads w (filter_input i) = Inl (JSONDecodeError m) \<Longrightarrow> left_with w i = Some StopException"
  by (simp add: left_with_def try_body_decode_error)

lemma raised_not_Exception: "snd (except_clauses e) = Some e' \<Longrightarrow> \<not> is_Exception e'"
  by (cases e) auto

lemma BytesIO_fresh_write_seek:
  "BytesIO_seek (BytesIO_write BytesIO_new bs) 0 = \<lparr>getvalue = bs, tell = 0\<rparr>"
  by (simp add: BytesIO_seek_def BytesIO_write_def BytesIO_new_def)

lemma length_row_at [simp]: "length (row_at df j) = length (columns df)"
  by (simp add: row_at_def columns_def)

lemma discover_append: "discover seen (xs @ ys) = discover (discover seen xs) ys"
  by (induction xs arbitrary: seen) simp_all

lemma union_keys_discover: "union_keys seen data = discover seen (key_stream data)"
  by (induction data arbitrary: seen) (simp_all add: key_stream_def discover_append)

lemma set_discover: "set (discover seen ks) = set seen \<union> set ks"
  by (induction ks arbitrary: seen) auto

lemma distinct_discover: "distinct seen \<Longrightarrow> distinct (discover seen ks)"
  by (induction ks arbitrary: seen) auto

lemma first_index_append:
  "first_index (xs @ ys) a =
     (if a \<in> set xs then first_index xs a else length xs + first_index ys a)"
  by (auto simp: first_index_def takeWhile_append)

lemma first_index_Nil [simp]: "first_index [] a = 0"
  by (simp add: first_index_def)

lemma first_index_Cons [simp]:
  "first_index (k # ks) a = (if k = a then 0 else Suc (first_index ks a))"
  by (simp add: first_index_def)

lemma first_index_less: "a \<in> set xs \<Longrightarrow> first_index xs a < length xs"
  by (induction xs) auto

lemma first_index_distinct:
  "distinct xs \<Longrightarrow> sorted_wrt (\<lambda>a b. first_index xs a < first_index xs b) xs"
proof (induction xs rule: rev_induct)
  case Nil
  then show ?case by simp
next
  case (snoc x xs)
  then have "sorted_wrt (\<lambda>a b. first_index xs a < first_index xs b) xs" by simp
  then have "sorted_wrt (\<lambda>a b. first_index (xs @ [x]) a < first_index (xs @ [x]) b) xs"
    by (rule sorted_wrt_mono_rel [rotated]) (simp add: first_index_append)
  moreover have "\<forall>a \<in> set xs. first_index (xs @ [x]) a < first_index (xs @ [x]) x"
    using snoc.prems by (auto simp: first_index_append first_index_less)
  ultimately show ?case by (simp add: sorted_wrt_append)
qed

lemma discover_order:
  "distinct seen \<Longrightarrow>
   sorted_wrt (\<lambda>a b. first_index (seen @ ks) a < first_index (seen @ ks) b) (discover seen ks)"
proof (induction ks arbitrary: seen)
  case Nil
  then show ?case by (simp add: first_index_distinct)
next
  case (Cons k ks)
  show ?case
  proof (cases "k \<in> set seen")
    case True
    have "sorted_wrt (\<lambda>a b. first_index (seen @ ks) a < first_index (seen @ ks) b)
            (discover seen ks)"
      using Cons.IH [OF Cons.prems] .
    then have "sorted_wrt (\<lambda>a b. first_index (seen @ k # ks) a < first_index (seen @ k # ks) b)
            (discover seen ks)"
    proof (rule sorted_wrt_mono_rel [rotated])
      fix a b
      assume "a \<in> set (discover seen ks)" "b \<in> set (discover seen ks)"
        and "first_index (seen @ ks) a < first_index (seen @ ks) b"
      then show "first_index (seen @ k # ks) a < first_index (seen @ k # ks) b"
        using True first_index_less [of a seen] first_index_less [of b seen]
        by (auto simp: first_index_append split: if_splits)
    qed
    with True show ?thesis by simp
  next
    case False
    with Cons.prems have "distinct (seen @ [k])" by simp
    from Cons.IH [OF this] False show ?thesis by simp
  qed
qed

lemma columns_DataFrame: "columns (DataFrame data) = union_keys [] data"
  by (simp add: DataFrame_def columns_def comp_def)


lemma result_stage_raise:
  "snd (result_stage w i data) =
     (if data = [] then None
      else if file_format i = ''CSV''
      then (case csv_encode w (table_rows (clean_data (str_builtin w) (DataFrame data)) False) of
              Inl e \<Rightarrow> Some e | Inr bs \<Rightarrow> None)
      else (case xlsx_encode w ''openpyxl''
                   (table_rows (clean_data (str_builtin w) (DataFrame data)) False) of
              Inl e \<Rightarrow> Some e | Inr bs \<Rightarrow> None))"
  by (simp add: result_stage_def export_stage_def Let_def split: sum.splits)

lemma query_stage_raise:
  "snd (query_stage w i c q) =
     (case server_info w c of
        Some e \<Rightarrow> Some e
      | None \<Rightarrow>
          (case getitem w c (db_name i) (col_name i) of
             Some e \<Rightarrow> Some e
           | None \<Rightarrow>
               (case collection_find w c (db_name i) (col_name i) q of
                  Inl e \<Rightarrow> Some e
                | Inr data \<Rightarrow> snd (result_stage w i data))))"
  by (simp add: query_stage_def Let_def split: option.splits sum.splits prod.splits)

lemma left_with_decoded:
  "json_loads w (filter_input i) = Inr q \<Longrightarrow>
   left_with w i =
     (case MongoClient w (mongo_uri i) 5000 of
        Inl e \<Rightarrow> Some e
      | Inr c \<Rightarrow> snd (query_stage w i c q))"
  by (simp add: left_with_def try_body_decoded Let_def split: sum.splits)

lemma left_with_not_decoded:
  "json_loads w (filter_input i) = Inl e \<Longrightarrow>
   left_with w i = (case e of JSONDecodeError m \<Rightarrow> Some StopException | _ \<Rightarrow> Some e)"
  by (simp add: left_with_def try_body_decode_error split: exn.splits)

lemma run_after_raise:
  assumes l: "left_with w i = Some e"
    and j: "\<forall>m. json_loads w (filter_input i) \<noteq> Inl (JSONDecodeError m)"
  shows "failure_kinds (events (run w i)) = outer_kind e
         \<and> raised (run w i) = (if is_Exception e then None else Some e)"
proof -
  from j have b: "failure_kinds (fst (try_body w i)) = []"
    by (auto simp: failure_kinds_try_body split: sum.splits exn.splits)
  from l have s: "snd (snd (try_body w i)) = Some e" by (simp add: left_with_def)
  show ?thesis
    by (cases e) (simp_all add: run_events run_raised b s)
qed

lemma run_without_raise:
  assumes l: "left_with w i = None"
  shows "failure_kinds (events (run w i)) = [] \<and> raised (run w i) = None"
proof -
  have j: "\<forall>m. json_loads w (filter_input i) \<noteq> Inl (JSONDecodeError m)"
    using l by (auto simp: left_with_decode_error)
  then have b: "failure_kinds (fst (try_body w i)) = []"
    by (auto simp: failure_kinds_try_body split: sum.splits exn.splits)
  from l have s: "snd (snd (try_body w i)) = None" by (simp add: left_with_def)
  show ?thesis by (simp add: run_events run_raised b s)
qed

lemma surfaced_asI:
  "left_with w i = Some e \<Longrightarrow>
   \<forall>m. json_loads w (filter_input i) \<noteq> Inl (JSONDecodeError m) \<Longrightarrow>
   surfaced_as (run w i) e"
  unfolding surfaced_as_def by (rule run_after_raise)

lemma example_loads_malformed: "example_loads malformed_filter = Inl (JSONDecodeError expecting_value)"
  by (simp add: example_loads_def malformed_filter_def active_filter_def bad_oid_filter_def)

lemma example_loads_bad_oid: "example_loads bad_oid_filter = Inl (OtherException invalid_id)"
  by (simp add: example_loads_def bad_oid_filter_def active_filter_def)

lemma example_loads_active:
  "example_loads active_filter = Inr (Doc [(''status'', Str ''ACTIVE'')])"
  by (simp add: example_loads_def)

section \<open>C1: a filter that does not decode\<close>

text \<open>
  Claim C1, as the code has it.  When \<open>json.loads\<close> raises on the filter text, no client is
  created, no call is made to the database (no connection attempt, no query with a
  substituted filter) and nothing is closed.  When what it raises is a
  \<open>JSONDecodeError\<close>, the run shows the invalid-JSON banner with the decoder's message, logs
  it, and stops with \<open>st.stop()\<close>: the FilterSyntax failure.  Any other exception of the
  decoder or of its extended-type hook goes to the outer \<open>except\<close> clauses instead: an
  \<open>Exception\<close> that is none of the named classes is shown as an unexpected error, the
  Unclassified failure.
\<close>

theorem decode_failure_never_connects:
  assumes "json_loads w (filter_input i) = Inl e"
  shows "client_var (run w i) = None
    \<and> filter is_database_call (events (run w i)) = []
    \<and> closes (events (run w i)) = 0
    \<and> events (run w i) =
        (case e of
           JSONDecodeError m \<Rightarrow>
             [St_error (invalid_json_banner m), Logging_error (''Invalid JSON input: '' @ m)]
         | OtherException m \<Rightarrow>
             [St_error (unexpected_banner m), Logging_error (''Unexpected Error: '' @ m)]
         | _ \<Rightarrow> fst (except_clauses e))
    \<and> raised (run w i) =
        (case e of JSONDecodeError m \<Rightarrow> Some StopException | _ \<Rightarrow> snd (except_clauses e))
    \<and> failure_kinds (events (run w i)) =
        (case e of
           JSONDecodeError m \<Rightarrow> [FilterSyntax]
         | ServerSelectionTimeoutError m \<Rightarrow> [ConnectionTimeout]
         | OperationFailure m \<Rightarrow> [AuthorizationFailure]
         | OtherException m \<Rightarrow> [Unclassified]
         | _ \<Rightarrow> [])"
proof -
  have body: "try_body w i =
     (case e of
        JSONDecodeError m \<Rightarrow>
          ([St_error (invalid_json_banner m), Logging_error (''Invalid JSON input: '' @ m)],
           None, Some StopException)
      | _ \<Rightarrow> ([], None, Some e))"
    using assms by (rule try_body_decode_error)
  show ?thesis
    by (cases e) (simp_all add: run_def body finally_clause_def)
qed

text \<open>
  The theorem at the filter \<open>{"status":}\<close> of scenario D: the decoder's message is shown,
  the run stops, no client exists.
\<close>

theorem decode_failure_never_connects_witness:
  "json_loads (server (Inr orders)) (filter_input (form malformed_filter ''CSV''))
     = Inl (JSONDecodeError expecting_value)
   \<and> events (run (server (Inr orders)) (form malformed_filter ''CSV'')) =
       [St_error (invalid_json_banner expecting_value),
        Logging_error (''Invalid JSON input: '' @ expecting_value)]
   \<and> raised (run (server (Inr orders)) (form malformed_filter ''CSV'')) = Some StopException
   \<and> client_var (run (server (Inr orders)) (form malformed_filter ''CSV'')) = None
   \<and> filter is_database_call (events (run (server (Inr orders)) (form malformed_filter ''CSV'')))
       = []
   \<and> failure_kinds (events (run (server (Inr orders)) (form malformed_filter ''CSV'')))
       = [FilterSyntax]"
proof -
  have h: "json_loads (server (Inr orders)) (filter_input (form malformed_filter ''CSV''))
             = Inl (JSONDecodeError expecting_value)"
    by (simp add: server_def form_def example_loads_malformed)
  from decode_failure_never_connects [OF h] h show ?thesis by simp
qed

text \<open>
  Claim C1 as stated fails at the filter \<open>{"_id": {"$oid": "xyz"}}\<close>: the text is
  well-formed JSON with a malformed extended-type tag, the hook raises \<open>InvalidId\<close>, the
  inner \<open>except json.JSONDecodeError\<close> does not match, and the run neither reports
  FilterSyntax nor stops: the outer \<open>except Exception\<close> shows an unexpected error.
\<close>

theorem malformed_tag_is_unclassified:
  "json_loads (server (Inr orders)) (filter_input (form bad_oid_filter ''CSV''))
     = Inl (OtherException invalid_id)
   \<and> events (run (server (Inr orders)) (form bad_oid_filter ''CSV'')) =
       [St_error (unexpected_banner invalid_id),
        Logging_error (''Unexpected Error: '' @ invalid_id)]
   \<and> failure_kinds (events (run (server (Inr orders)) (form bad_oid_filter ''CSV'')))
       = [Unclassified]
   \<and> failure_kinds (events (run (server (Inr orders)) (form bad_oid_filter ''CSV'')))
       \<noteq> [FilterSyntax]
   \<and> raised (run (server (Inr orders)) (form bad_oid_filter ''CSV'')) = None"
  by (simp add: run_def try_body_def parse_stage_def server_def form_def example_loads_bad_oid
        finally_clause_def)

section \<open>C2: the connection is closed once\<close>

text \<open>
  Claim C2.  In every run, whatever the libraries answer or raise, \<open>client.close()\<close> is
  called once when the variable \<open>client\<close> holds a client and never otherwise; the variable
  holds a client exactly when the filter decoded and the \<open>MongoClient\<close> constructor
  returned; and the call to \<open>close\<close>, with its log line, is the last thing the run does.
\<close>

theorem close_exactly_once:
  "closes (events (run w i)) = (case client_var (run w i) of None \<Rightarrow> 0 | Some c \<Rightarrow> 1)
   \<and> client_var (run w i) =
       (case json_loads w (filter_input i) of
          Inl e \<Rightarrow> None
        | Inr q \<Rightarrow> (case MongoClient w (mongo_uri i) 5000 of Inl e \<Rightarrow> None | Inr c \<Rightarrow> Some c))
   \<and> (case client_var (run w i) of
         None \<Rightarrow> True
       | Some c \<Rightarrow> (\<exists>before. events (run w i) =
                       before @ [Close_call, Logging_info ''MongoDB connection closed.'']))"
proof -
  have a: "closes (events (run w i)) = (case client_var (run w i) of None \<Rightarrow> 0 | Some c \<Rightarrow> 1)"
    by (simp add: run_events run_client_var split: option.splits)
  have b: "client_var (run w i) =
       (case json_loads w (filter_input i) of
          Inl e \<Rightarrow> None
        | Inr q \<Rightarrow> (case MongoClient w (mongo_uri i) 5000 of Inl e \<Rightarrow> None | Inr c \<Rightarrow> Some c))"
    by (simp add: run_client_var try_body_client)
  have c: "(case client_var (run w i) of
         None \<Rightarrow> True
       | Some c \<Rightarrow> (\<exists>before. events (run w i) =
                       before @ [Close_call, Logging_info ''MongoDB connection closed.'']))"
    by (simp add: run_events run_client_var finally_clause_def split: option.splits)
  from a b c show ?thesis by blast
qed

text \<open>
  The theorem at a failure after the handle was created (the reachability check times
  out), and at a run that never creates one.
\<close>

theorem close_exactly_once_witness:
  "client_var (run unreachable (form active_filter ''CSV'')) = Some 1
   \<and> closes (events (run unreachable (form active_filter ''CSV''))) = 1
   \<and> client_var (run unreachable (form malformed_filter ''CSV'')) = None
   \<and> closes (events (run unreachable (form malformed_filter ''CSV''))) = 0"
proof -
  have a: "client_var (run unreachable (form active_filter ''CSV'')) = Some 1"
    by (simp add: run_client_var try_body_client unreachable_def server_def form_def
          example_loads_active)
  have b: "client_var (run unreachable (form malformed_filter ''CSV'')) = None"
    by (simp add: run_client_var try_body_client unreachable_def server_def form_def
          example_loads_malformed)
  from close_exactly_once [of unreachable "form active_filter ''CSV''"]
       close_exactly_once [of unreachable "form malformed_filter ''CSV''"] a b
  show ?thesis by simp
qed

section \<open>C4: every error ends in one of four banners\<close>

text \<open>
  Claim C4.  Whichever library call of a run is the first to raise, the exception is
  surfaced: a \<open>JSONDecodeError\<close> of \<open>json.loads\<close> as FilterSyntax, with the run stopped by
  \<open>st.stop()\<close>; any other exception of \<open>json.loads\<close>, and any exception of the
  \<open>MongoClient\<close> constructor, of \<open>server_info\<close>, of \<open>client[db_name][col_name]\<close>, of \<open>find\<close>
  or of the serialiser, as the kind of its class: ConnectionTimeout for a
  \<open>ServerSelectionTimeoutError\<close>, AuthorizationFailure for an \<open>OperationFailure\<close>,
  Unclassified for any other \<open>Exception\<close>.  That is exactly one kind for every instance of
  \<open>Exception\<close>, and the script then runs to its end.  When no call raises, no kind is
  shown.  No instance of \<open>Exception\<close> leaves a run: what leaves it is only the
  \<open>StopException\<close> of \<open>st.stop()\<close> or another exception outside \<open>Exception\<close>.  The same
  holds read off the exception the \<open>try\<close> body is left with, and the four banners are told
  apart by their text.
\<close>

theorem every_error_classified:
  "(is_Exception e \<longrightarrow> length (outer_kind e) = 1)
   \<and> (json_loads w (filter_input i) = Inl (JSONDecodeError m) \<longrightarrow>
        failure_kinds (events (run w i)) = [FilterSyntax]
        \<and> raised (run w i) = Some StopException)
   \<and> (json_loads w (filter_input i) = Inl e \<longrightarrow> (\<forall>m. e \<noteq> JSONDecodeError m) \<longrightarrow>
        surfaced_as (run w i) e)
   \<and> (json_loads w (filter_input i) = Inr q \<longrightarrow>
        (MongoClient w (mongo_uri i) 5000 = Inl e \<longrightarrow> surfaced_as (run w i) e)
        \<and> (MongoClient w (mongo_uri i) 5000 = Inr c \<longrightarrow>
             (server_info w c = Some e \<longrightarrow> surfaced_as (run w i) e)
             \<and> (server_info w c = None \<longrightarrow>
                  (getitem w c (db_name i) (col_name i) = Some e \<longrightarrow> surfaced_as (run w i) e)
                  \<and> (getitem w c (db_name i) (col_name i) = None \<longrightarrow>
                       (collection_find w c (db_name i) (col_name i) q = Inl e \<longrightarrow>
                          surfaced_as (run w i) e)
                       \<and> (collection_find w c (db_name i) (col_name i) q = Inr data \<longrightarrow>
                            (data \<noteq> [] \<longrightarrow> encoded w i data = Inl e \<longrightarrow>
                               surfaced_as (run w i) e)
                            \<and> (data = [] \<or> encoded w i data = Inr bs \<longrightarrow>
                                 failure_kinds (events (run w i)) = []
                                 \<and> raised (run w i) = None))))))
   \<and> (\<forall>e. raised (run w i) = Some e \<longrightarrow> \<not> is_Exception e)
   \<and> failure_kinds (events (run w i)) =
       (case json_loads w (filter_input i) of
          Inl (JSONDecodeError m) \<Rightarrow> [FilterSyntax]
        | _ \<Rightarrow>
          (case left_with w i of
             Some (ServerSelectionTimeoutError m) \<Rightarrow> [ConnectionTimeout]
           | Some (OperationFailure m) \<Rightarrow> [AuthorizationFailure]
           | Some (JSONDecodeError m) \<Rightarrow> [Unclassified]
           | Some (OtherException m) \<Rightarrow> [Unclassified]
           | _ \<Rightarrow> []))
   \<and> (\<forall>e. left_with w i = Some e \<longrightarrow> is_Exception e \<longrightarrow>
         raised (run w i) = None \<and> length (failure_kinds (events (run w i))) = 1)
   \<and> banner_kind (invalid_json_banner m1) = Some FilterSyntax
   \<and> banner_kind timeout_banner = Some ConnectionTimeout
   \<and> banner_kind auth_banner = Some AuthorizationFailure
   \<and> banner_kind (unexpected_banner m2) = Some Unclassified"
proof -
  have a: "\<forall>e. raised (run w i) = Some e \<longrightarrow> \<not> is_Exception e"
    by (auto simp: run_raised split: option.splits dest: raised_not_Exception)
  have b: "failure_kinds (events (run w i)) =
       (case json_loads w (filter_input i) of
          Inl (JSONDecodeError m) \<Rightarrow> [FilterSyntax]
        | _ \<Rightarrow>
          (case left_with w i of
             Some (ServerSelectionTimeoutError m) \<Rightarrow> [ConnectionTimeout]
           | Some (OperationFailure m) \<Rightarrow> [AuthorizationFailure]
           | Some (JSONDecodeError m) \<Rightarrow> [Unclassified]
           | Some (OtherException m) \<Rightarrow> [Unclassified]
           | _ \<Rightarrow> []))"
  proof (cases "json_loads w (filter_input i)")
    case (Inl e)
    show ?thesis
    proof (cases "\<exists>m. e = JSONDecodeError m")
      case True
      then obtain m where e: "e = JSONDecodeError m" by blast
      with Inl have "left_with w i = Some StopException" by (simp add: left_with_decode_error)
      with Inl e show ?thesis
        by (simp add: run_events failure_kinds_try_body left_with_def)
    next
      case False
      with Inl have "left_with w i = Some e"
        by (cases e) (simp_all add: left_with_def try_body_decode_error)
      with Inl False show ?thesis
        by (cases e)
           (simp_all add: run_events failure_kinds_try_body left_with_def)
    qed
  next
    case (Inr q)
    then show ?thesis
      by (simp add: run_events failure_kinds_try_body left_with_def failure_kinds_except_clauses
               split: option.splits exn.splits)
  qed
  have c: "\<forall>e. left_with w i = Some e \<longrightarrow> is_Exception e \<longrightarrow>
         raised (run w i) = None \<and> length (failure_kinds (events (run w i))) = 1"
  proof (intro allI impI)
    fix e assume l: "left_with w i = Some e" and ex: "is_Exception e"
    have r: "raised (run w i) = None"
      using l ex by (cases e) (simp_all add: run_raised left_with_def)
    have "\<not> (\<exists>m. json_loads w (filter_input i) = Inl (JSONDecodeError m))"
      using l ex by (auto simp: left_with_decode_error)
    then have "failure_kinds (fst (try_body w i)) = []"
      by (auto simp: failure_kinds_try_body split: sum.splits exn.splits)
    then have "length (failure_kinds (events (run w i))) = 1"
      using l ex by (cases e) (simp_all add: run_events left_with_def)
    with r show "raised (run w i) = None \<and> length (failure_kinds (events (run w i))) = 1"
      by simp
  qed

  have n2: "is_Exception e \<longrightarrow> length (outer_kind e) = 1"
    by (cases e) simp_all
  have n3: "json_loads w (filter_input i) = Inl (JSONDecodeError m) \<longrightarrow>
        failure_kinds (events (run w i)) = [FilterSyntax]
        \<and> raised (run w i) = Some StopException"
    by (simp add: run_events run_raised failure_kinds_try_body try_body_decode_error)
  have n4: "json_loads w (filter_input i) = Inl e \<longrightarrow> (\<forall>m. e \<noteq> JSONDecodeError m) \<longrightarrow>
        surfaced_as (run w i) e"
  proof (intro impI)
    assume j: "json_loads w (filter_input i) = Inl e" and n: "\<forall>m. e \<noteq> JSONDecodeError m"
    from j n have "left_with w i = Some e"
      by (cases e) (simp_all add: left_with_not_decoded)
    moreover from j n have "\<forall>m. json_loads w (filter_input i) \<noteq> Inl (JSONDecodeError m)"
      by simp
    ultimately show "surfaced_as (run w i) e" by (rule surfaced_asI)
  qed
  have n5: "json_loads w (filter_input i) = Inr q \<longrightarrow>
        (MongoClient w (mongo_uri i) 5000 = Inl e \<longrightarrow> surfaced_as (run w i) e)
        \<and> (MongoClient w (mongo_uri i) 5000 = Inr c \<longrightarrow>
             (server_info w c = Some e \<longrightarrow> surfaced_as (run w i) e)
             \<and> (server_info w c = None \<longrightarrow>
                  (getitem w c (db_name i) (col_name i) = Some e \<longrightarrow> surfaced_as (run w i) e)
                  \<and> (getitem w c (db_name i) (col_name i) = None \<longrightarrow>
                       (collection_find w c (db_name i) (col_name i) q = Inl e \<longrightarrow>
                          surfaced_as (run w i) e)
                       \<and> (collection_find w c (db_name i) (col_name i) q = Inr data \<longrightarrow>
                            (data \<noteq> [] \<longrightarrow> encoded w i data = Inl e \<longrightarrow>
                               surfaced_as (run w i) e)
                            \<and> (data = [] \<or> encoded w i data = Inr bs \<longrightarrow>
                                 failure_kinds (events (run w i)) = []
                                 \<and> raised (run w i) = None)))))"
  proof (intro impI)
    assume j: "json_loads w (filter_input i) = Inr q"
    then have n: "\<forall>m. json_loads w (filter_input i) \<noteq> Inl (JSONDecodeError m)" by simp
    have s: "surfaced_as (run w i) e" if "left_with w i = Some e"
      using that n by (rule surfaced_asI)
    have t: "failure_kinds (events (run w i)) = [] \<and> raised (run w i) = None"
      if "left_with w i = None"
      using that by (rule run_without_raise)
    have l: "left_with w i =
       (case MongoClient w (mongo_uri i) 5000 of
          Inl e \<Rightarrow> Some e
        | Inr c \<Rightarrow>
          (case server_info w c of
             Some e \<Rightarrow> Some e
           | None \<Rightarrow>
             (case getitem w c (db_name i) (col_name i) of
                Some e \<Rightarrow> Some e
              | None \<Rightarrow>
                (case collection_find w c (db_name i) (col_name i) q of
                   Inl e \<Rightarrow> Some e
                 | Inr data \<Rightarrow>
                   (if data = [] then None
                    else (case encoded w i data of Inl e \<Rightarrow> Some e | Inr bs \<Rightarrow> None))))))"
      by (simp add: left_with_decoded [OF j] query_stage_raise result_stage_raise encoded_def
            split: sum.splits option.splits)
    show "(MongoClient w (mongo_uri i) 5000 = Inl e \<longrightarrow> surfaced_as (run w i) e)
        \<and> (MongoClient w (mongo_uri i) 5000 = Inr c \<longrightarrow>
             (server_info w c = Some e \<longrightarrow> surfaced_as (run w i) e)
             \<and> (server_info w c = None \<longrightarrow>
                  (getitem w c (db_name i) (col_name i) = Some e \<longrightarrow> surfaced_as (run w i) e)
                  \<and> (getitem w c (db_name i) (col_name i) = None \<longrightarrow>
                       (collection_find w c (db_name i) (col_name i) q = Inl e \<longrightarrow>
                          surfaced_as (run w i) e)
                       \<and> (collection_find w c (db_name i) (col_name i) q = Inr data \<longrightarrow>
                            (data \<noteq> [] \<longrightarrow> encoded w i data = Inl e \<longrightarrow>
                               surfaced_as (run w i) e)
                            \<and> (data = [] \<or> encoded w i data = Inr bs \<longrightarrow>
                                 failure_kinds (events (run w i)) = []
                                 \<and> raised (run w i) = None)))))"
      using s t by (auto simp: l)
  qed
  from n2 n3 n4 n5 a b c show ?thesis by simp
qed

text \<open>
  The theorem at scenario C, a host that cannot be reached (the reachability check raises
  a \<open>ServerSelectionTimeoutError\<close>), and at a server that rejects the query (\<open>find\<close> raises
  an \<open>OperationFailure\<close>).
\<close>

theorem every_error_classified_witness:
  "json_loads unreachable (filter_input (form active_filter ''CSV''))
     = Inr (Doc [(''status'', Str ''ACTIVE'')])
   \<and> MongoClient unreachable (mongo_uri (form active_filter ''CSV'')) 5000 = Inr 1
   \<and> server_info unreachable 1
       = Some (ServerSelectionTimeoutError ''localhost:27017: timed out'')
   \<and> failure_kinds (events (run unreachable (form active_filter ''CSV''))) = [ConnectionTimeout]
   \<and> raised (run unreachable (form active_filter ''CSV'')) = None
   \<and> collection_find (server (Inl (OperationFailure ''not authorized on shop''))) 1
         (db_name (form active_filter ''CSV'')) (col_name (form active_filter ''CSV''))
         (Doc [(''status'', Str ''ACTIVE'')])
       = Inl (OperationFailure ''not authorized on shop'')
   \<and> failure_kinds (events (run (server (Inl (OperationFailure ''not authorized on shop'')))
                                 (form active_filter ''CSV''))) = [AuthorizationFailure]
   \<and> raised (run (server (Inl (OperationFailure ''not authorized on shop'')))
                  (form active_filter ''CSV'')) = None"
proof -
  have u: "json_loads unreachable (filter_input (form active_filter ''CSV''))
             = Inr (Doc [(''status'', Str ''ACTIVE'')])"
      "MongoClient unreachable (mongo_uri (form active_filter ''CSV'')) 5000 = Inr 1"
      "server_info unreachable 1
         = Some (ServerSelectionTimeoutError ''localhost:27017: timed out'')"
    by (simp_all add: unreachable_def server_def form_def example_loads_active)
  have v: "json_loads (server (Inl (OperationFailure ''not authorized on shop'')))
             (filter_input (form active_filter ''CSV''))
             = Inr (Doc [(''status'', Str ''ACTIVE'')])"
      "MongoClient (server (Inl (OperationFailure ''not authorized on shop'')))
             (mongo_uri (form active_filter ''CSV'')) 5000 = Inr 1"
      "server_info (server (Inl (OperationFailure ''not authorized on shop''))) 1 = None"
      "getitem (server (Inl (OperationFailure ''not authorized on shop''))) 1
             (db_name (form active_filter ''CSV'')) (col_name (form active_filter ''CSV''))
             = None"
      "collection_find (server (Inl (OperationFailure ''not authorized on shop''))) 1
             (db_name (form active_filter ''CSV'')) (col_name (form active_filter ''CSV''))
             (Doc [(''status'', Str ''ACTIVE'')])
             = Inl (OperationFailure ''not authorized on shop'')"
    by (simp_all add: server_def form_def example_loads_active)
  from every_error_classified
         [of "ServerSelectionTimeoutError ''localhost:27017: timed out''"
             unreachable "form active_filter ''CSV''" _
             "Doc [(''status'', Str ''ACTIVE'')]" 1] u
  have a: "surfaced_as (run unreachable (form active_filter ''CSV''))
             (ServerSelectionTimeoutError ''localhost:27017: timed out'')"
    by simp
  from every_error_classified
         [of "OperationFailure ''not authorized on shop''"
             "server (Inl (OperationFailure ''not authorized on shop''))"
             "form active_filter ''CSV''" _
             "Doc [(''status'', Str ''ACTIVE'')]" 1] v
  have b: "surfaced_as (run (server (Inl (OperationFailure ''not authorized on shop'')))
                            (form active_filter ''CSV''))
             (OperationFailure ''not authorized on shop'')"
    by simp
  from a b u v show ?thesis by (simp add: surfaced_as_def)
qed

section \<open>C5: no record matches\<close>

text \<open>
  Claim C5.  On an empty list of records the result stage only shows and logs the warning
  "No records found matching the criteria." and ends normally.  In a run whose filter
  decodes, whose connection and reachability check succeed and whose query returns no
  record, the events are exactly the ones listed: a warning, no error banner (so no
  failure kind), no success message and no download button (no artifact); the run ends
  without an exception, after closing the connection.
\<close>

theorem empty_result_is_a_warning:
  "result_stage w i [] = ([St_warning no_records_msg, Logging_warning no_records_msg], None)
   \<and> (json_loads w (filter_input i) = Inr q \<longrightarrow>
        MongoClient w (mongo_uri i) 5000 = Inr c \<longrightarrow>
        server_info w c = None \<longrightarrow>
        getitem w c (db_name i) (col_name i) = None \<longrightarrow>
        collection_find w c (db_name i) (col_name i) q = Inr [] \<longrightarrow>
          events (run w i) =
            [Logging_info (''Attempting to connect to '' @ mongo_uri i @ ''...''),
             MongoClient_call (mongo_uri i) 5000,
             Server_info_call,
             Logging_info ''Connection successful.'',
             Getitem_call (db_name i) (col_name i),
             Logging_info (''Querying collection: '' @ col_name i @ '' with filter: ''
                           @ str_builtin w q),
             Find_call q,
             St_warning no_records_msg,
             Logging_warning no_records_msg,
             Close_call,
             Logging_info ''MongoDB connection closed.'']
          \<and> raised (run w i) = None
          \<and> failure_kinds (events (run w i)) = []
          \<and> filter is_download (events (run w i)) = [])"
  by (simp add: run_def try_body_decoded query_stage_def result_stage_def finally_clause_def
        Let_def)

text \<open>The theorem at scenario B: the server answers, no order matches.\<close>

theorem empty_result_is_a_warning_witness:
  "json_loads (server (Inr [])) (filter_input (form active_filter ''CSV''))
     = Inr (Doc [(''status'', Str ''ACTIVE'')])
   \<and> MongoClient (server (Inr [])) (mongo_uri (form active_filter ''CSV'')) 5000 = Inr 1
   \<and> server_info (server (Inr [])) 1 = None
   \<and> getitem (server (Inr [])) 1 (db_name (form active_filter ''CSV''))
        (col_name (form active_filter ''CSV'')) = None
   \<and> collection_find (server (Inr [])) 1 (db_name (form active_filter ''CSV''))
        (col_name (form active_filter ''CSV'')) (Doc [(''status'', Str ''ACTIVE'')]) = Inr []
   \<and> events (run (server (Inr [])) (form active_filter ''CSV'')) =
       [Logging_info ''Attempting to connect to mongodb://localhost:27017/...'',
        MongoClient_call ''mongodb://localhost:27017/'' 5000,
        Server_info_call,
        Logging_info ''Connection successful.'',
        Getitem_call ''shop'' ''orders'',
        Logging_info ''Querying collection: orders with filter: {...}'',
        Find_call (Doc [(''status'', Str ''ACTIVE'')]),
        St_warning no_records_msg,
        Logging_warning no_records_msg,
        Close_call,
        Logging_info ''MongoDB connection closed.'']
   \<and> raised (run (server (Inr [])) (form active_filter ''CSV'')) = None
   \<and> failure_kinds (events (run (server (Inr [])) (form active_filter ''CSV''))) = []"
proof -
  have h: "json_loads (server (Inr [])) (filter_input (form active_filter ''CSV''))
             = Inr (Doc [(''status'', Str ''ACTIVE'')])"
      "MongoClient (server (Inr [])) (mongo_uri (form active_filter ''CSV'')) 5000 = Inr 1"
      "server_info (server (Inr [])) 1 = None"
      "getitem (server (Inr [])) 1 (db_name (form active_filter ''CSV''))
         (col_name (form active_filter ''CSV'')) = None"
      "collection_find (server (Inr [])) 1 (db_name (form active_filter ''CSV''))
         (col_name (form active_filter ''CSV'')) (Doc [(''status'', Str ''ACTIVE'')]) = Inr []"
    by (simp_all add: server_def form_def example_loads_active)
  have s: "mongo_uri (form active_filter ''CSV'') = ''mongodb://localhost:27017/''"
      "db_name (form active_filter ''CSV'') = ''shop''"
      "col_name (form active_filter ''CSV'') = ''orders''"
      "str_builtin (server (Inr [])) (Doc [(''status'', Str ''ACTIVE'')]) = ''{...}''"
    by (simp_all add: server_def form_def)
  from empty_result_is_a_warning
         [of "server (Inr [])" "form active_filter ''CSV''" "Doc [(''status'', Str ''ACTIVE'')]" 1]
       h s
  show ?thesis by simp
qed

section \<open>C6: the columns of the frame\<close>

text \<open>
  Claim C6, on the frame constructor as the spec describes it.  The columns of
  \<open>DataFrame data\<close> are the union of the keys of all records, each once, ordered by where
  each key is first seen; the frame has one row per record, every row has one cell per
  column (the frame is rectangular), and the cell is the record's value under that key, or
  \<open>nan\<close> when the record has no such key.
\<close>

theorem DataFrame_union_of_keys:
  "set (columns (DataFrame data)) = (\<Union>r \<in> set data. fst ` set r)
   \<and> distinct (columns (DataFrame data))
   \<and> sorted_wrt (\<lambda>a b. first_index (key_stream data) a < first_index (key_stream data) b)
        (columns (DataFrame data))
   \<and> nrows (DataFrame data) = length data
   \<and> rectangular (DataFrame data)
   \<and> (\<forall>i < length data.
        length (row_at (DataFrame data) i) = length (columns (DataFrame data))
        \<and> (\<forall>j < length (columns (DataFrame data)).
              row_at (DataFrame data) i ! j =
                (case map_of (data ! i) (columns (DataFrame data) ! j) of
                   Some v \<Rightarrow> v
                 | None \<Rightarrow> nan)))"
proof -
  have a: "set (columns (DataFrame data)) = (\<Union>r \<in> set data. fst ` set r)"
    by (auto simp: columns_DataFrame union_keys_discover set_discover key_stream_def)
  have b: "distinct (columns (DataFrame data))"
    by (simp add: columns_DataFrame union_keys_discover distinct_discover)
  have c: "sorted_wrt (\<lambda>a b. first_index (key_stream data) a < first_index (key_stream data) b)
        (columns (DataFrame data))"
    using discover_order [of "[]" "key_stream data"]
    by (simp add: columns_DataFrame union_keys_discover)
  have d: "nrows (DataFrame data) = length data"
    by (simp add: DataFrame_def)
  have r: "rectangular (DataFrame data)"
    by (simp add: rectangular_def DataFrame_def list_all_iff)
  have e: "\<forall>i < length data.
        length (row_at (DataFrame data) i) = length (columns (DataFrame data))
        \<and> (\<forall>j < length (columns (DataFrame data)).
              row_at (DataFrame data) i ! j =
                (case map_of (data ! i) (columns (DataFrame data) ! j) of
                   Some v \<Rightarrow> v
                 | None \<Rightarrow> nan))"
    by (simp add: columns_DataFrame) (simp add: DataFrame_def row_at_def cell_def)
  from a b c d r e show ?thesis by blast
qed

text \<open>
  The theorem at the three orders: the second order has no \<open>status\<close>, so its cell under
  that column is \<open>nan\<close>.
\<close>

theorem DataFrame_union_of_keys_witness:
  "1 < length orders
   \<and> columns (DataFrame orders) = [''_id'', ''status'', ''owner'', ''qty'']
   \<and> 1 < length (columns (DataFrame orders))
   \<and> length (row_at (DataFrame orders) 1) = length (columns (DataFrame orders))
   \<and> row_at (DataFrame orders) 1 ! 1 = nan
   \<and> rectangular (DataFrame orders)
   \<and> set (columns (DataFrame orders)) = (\<Union>r \<in> set orders. fst ` set r)"
proof -
  have c: "columns (DataFrame orders) = [''_id'', ''status'', ''owner'', ''qty'']"
    by (simp add: columns_DataFrame orders_def)
  have l: "1 < length orders" by (simp add: orders_def)
  have m: "map_of (orders ! 1) ''status'' = None" by (simp add: orders_def)
  from DataFrame_union_of_keys [of orders] c l m show ?thesis by simp
qed

section \<open>C7: ObjectIds outside the \<open>_id\<close> column\<close>

text \<open>
  Claim C7 at a frame whose \<open>owner\<close> column holds ObjectIds: \<open>clean_data\<close> rewrites the
  \<open>_id\<close> column to strings and leaves the ObjectIds of \<open>owner\<close> as they are, although its
  docstring promises to convert ObjectIds and other BSON types to strings for export.
\<close>

theorem clean_data_keeps_owner_ObjectId:
  "clean_data example_str owner_frame =
     \<lparr>nrows = 2,
      cols = [(''_id'', [Str ''65a1f0c2e4b0a1b2c3d4e5f6'', Str ''65a1f0c2e4b0a1b2c3d4e5f7'']),
              (''owner'', [ObjectId ''5f43a1b2c3d4e5f607182930'',
                           ObjectId ''5f43a1b2c3d4e5f607182931''])]\<rparr>"
  by (simp add: clean_data_def owner_frame_def columns_def astype_str_def)

section \<open>C9: the exported artifact\<close>

text \<open>
  Claim C9.  With format \<open>CSV\<close> the export stage hands the frame's grid, written without
  an index column, to the delimited-text encoder and returns its bytes in a buffer
  positioned at 0, with content type \<open>text/csv\<close> and file name \<open>mongo_export.csv\<close>.  With
  any other format (the form offers \<open>Excel\<close>) it hands the same grid to the workbook
  encoder, engine \<open>openpyxl\<close>, one sheet, and returns its bytes in a buffer positioned at
  0, with the spreadsheet content type and file name \<open>mongo_export.xlsx\<close>.  The first row
  of the grid is the column names, one row follows per record, and every row has exactly
  as many cells as there are columns.  The result stage passes buffer, file name and
  content type to the download button unchanged.
\<close>

theorem export_artifact:
  "(csv_encode w (table_rows df False) = Inr bs \<longrightarrow>
      export_stage w ''CSV'' df = Inr (\<lparr>getvalue = bs, tell = 0\<rparr>, ''text/csv'', ''mongo_export.csv''))
   \<and> (fmt \<noteq> ''CSV'' \<longrightarrow> xlsx_encode w ''openpyxl'' (table_rows df False) = Inr bs \<longrightarrow>
      export_stage w fmt df =
        Inr (\<lparr>getvalue = bs, tell = 0\<rparr>,
             ''application/vnd.openxmlformats-officedocument.spreadsheetml.sheet'',
             ''mongo_export.xlsx''))
   \<and> hd (table_rows df False) = map Str (columns df)
   \<and> length (table_rows df False) = Suc (nrows df)
   \<and> (\<forall>r \<in> set (table_rows df False). length r = length (columns df))
   \<and> (data \<noteq> [] \<longrightarrow>
        export_stage w (file_format i) (clean_data (str_builtin w) (DataFrame data))
          = Inr (buffer, mime_type, file_name) \<longrightarrow>
        result_stage w i data =
          ([Logging_info (''Retrieved '' @ str_nat (length data) @ '' records.''),
            St_success (check_mark @ '' Successfully fetched '' @ str_nat (length data)
                        @ '' records!''),
            St_download_button (inbox_tray @ '' Download '' @ file_format i)
                               buffer file_name mime_type,
            Logging_info ''Download button generated successfully.''], None))"
proof -
  have a: "csv_encode w (table_rows df False) = Inr bs \<longrightarrow>
      export_stage w ''CSV'' df = Inr (\<lparr>getvalue = bs, tell = 0\<rparr>, ''text/csv'', ''mongo_export.csv'')"
    by (simp add: export_stage_def BytesIO_fresh_write_seek)
  have b: "fmt \<noteq> ''CSV'' \<longrightarrow> xlsx_encode w ''openpyxl'' (table_rows df False) = Inr bs \<longrightarrow>
      export_stage w fmt df =
        Inr (\<lparr>getvalue = bs, tell = 0\<rparr>,
             ''application/vnd.openxmlformats-officedocument.spreadsheetml.sheet'',
             ''mongo_export.xlsx'')"
    by (simp add: export_stage_def BytesIO_fresh_write_seek)
  have c: "hd (table_rows df False) = map Str (columns df)"
    by (simp add: table_rows_def)
  have d: "length (table_rows df False) = Suc (nrows df)"
    by (simp add: table_rows_def)
  have e: "\<forall>r \<in> set (table_rows df False). length r = length (columns df)"
    by (auto simp: table_rows_def)
  have f: "data \<noteq> [] \<longrightarrow>
        export_stage w (file_format i) (clean_data (str_builtin w) (DataFrame data))
          = Inr (buffer, mime_type, file_name) \<longrightarrow>
        result_stage w i data =
          ([Logging_info (''Retrieved '' @ str_nat (length data) @ '' records.''),
            St_success (check_mark @ '' Successfully fetched '' @ str_nat (length data)
                        @ '' records!''),
            St_download_button (inbox_tray @ '' Download '' @ file_format i)
                               buffer file_name mime_type,
            Logging_info ''Download button generated successfully.''], None)"
    by (simp add: result_stage_def Let_def)
  from a b c d e f show ?thesis by blast
qed

text \<open>The theorem at both formats, on the frame of the two owned documents.\<close>

theorem export_artifact_witness:
  "csv_encode (server (Inr orders)) (table_rows owner_frame False)
     = Inr (example_csv (table_rows owner_frame False))
   \<and> export_stage (server (Inr orders)) ''CSV'' owner_frame =
       Inr (\<lparr>getvalue = example_csv (table_rows owner_frame False), tell = 0\<rparr>,
            ''text/csv'', ''mongo_export.csv'')
   \<and> ''Excel'' \<noteq> ''CSV''
   \<and> xlsx_encode (server (Inr orders)) ''openpyxl'' (table_rows owner_frame False)
       = Inr (''PK'' @ example_csv (table_rows owner_frame False))
   \<and> export_stage (server (Inr orders)) ''Excel'' owner_frame =
       Inr (\<lparr>getvalue = ''PK'' @ example_csv (table_rows owner_frame False), tell = 0\<rparr>,
            ''application/vnd.openxmlformats-officedocument.spreadsheetml.sheet'',
            ''mongo_export.xlsx'')
   \<and> hd (table_rows owner_frame False) = [Str ''_id'', Str ''owner'']
   \<and> table_rows owner_frame False =
       [[Str ''_id'', Str ''owner''],
        [ObjectId ''65a1f0c2e4b0a1b2c3d4e5f6'', ObjectId ''5f43a1b2c3d4e5f607182930''],
        [ObjectId ''65a1f0c2e4b0a1b2c3d4e5f7'', ObjectId ''5f43a1b2c3d4e5f607182931'']]"
proof -
  have a: "csv_encode (server (Inr orders)) (table_rows owner_frame False)
             = Inr (example_csv (table_rows owner_frame False))"
    by (simp add: server_def)
  have b: "xlsx_encode (server (Inr orders)) ''openpyxl'' (table_rows owner_frame False)
             = Inr (''PK'' @ example_csv (table_rows owner_frame False))"
    by (simp add: server_def)
  have c: "columns owner_frame = [''_id'', ''owner'']"
    by (simp add: columns_def owner_frame_def)
  have d: "table_rows owner_frame False =
       [[Str ''_id'', Str ''owner''],
        [ObjectId ''65a1f0c2e4b0a1b2c3d4e5f6'', ObjectId ''5f43a1b2c3d4e5f607182930''],
        [ObjectId ''65a1f0c2e4b0a1b2c3d4e5f7'', ObjectId ''5f43a1b2c3d4e5f607182931'']]"
    by (simp add: table_rows_def c row_at_def) (simp add: owner_frame_def upt_rec)
  have e: "''Excel'' \<noteq> ''CSV''" by simp
  from export_artifact [of "server (Inr orders)" owner_frame
          "example_csv (table_rows owner_frame False)" "''Excel''"]
       export_artifact [of "server (Inr orders)" owner_frame
          "''PK'' @ example_csv (table_rows owner_frame False)" "''Excel''"]
       a b c e
  have "export_stage (server (Inr orders)) ''CSV'' owner_frame =
       Inr (\<lparr>getvalue = example_csv (table_rows owner_frame False), tell = 0\<rparr>,
            ''text/csv'', ''mongo_export.csv'')"
    and "export_stage (server (Inr orders)) ''Excel'' owner_frame =
       Inr (\<lparr>getvalue = ''PK'' @ example_csv (table_rows owner_frame False), tell = 0\<rparr>,
            ''application/vnd.openxmlformats-officedocument.spreadsheetml.sheet'',
            ''mongo_export.xlsx'')"
    and "hd (table_rows owner_frame False) = [Str ''_id'', Str ''owner'']"
    by simp_all
  with a b d e show ?thesis by simp
qed

section \<open>C10: \<open>clean_data\<close> touches the \<open>_id\<close> column only\<close>

text \<open>
  Claim C10.  \<open>clean_data\<close> keeps the number of rows and the column names; a frame without
  an \<open>_id\<close> column is returned as it is; in a frame with one, every column of another name
  is left as it is, and each cell of a column named \<open>_id\<close> is replaced by the string \<open>str\<close>
  gives for it.
\<close>

theorem clean_data_touches_only_id:
  "nrows (clean_data str df) = nrows df
   \<and> columns (clean_data str df) = columns df
   \<and> (''_id'' \<notin> set (columns df) \<longrightarrow> clean_data str df = df)
   \<and> (\<forall>j < length (cols df).
        cols (clean_data str df) ! j =
          (if fst (cols df ! j) = ''_id''
           then (''_id'', map (\<lambda>x. Str (str x)) (snd (cols df ! j)))
           else cols df ! j))"
proof -
  have a: "nrows (clean_data str df) = nrows df"
    by (simp add: clean_data_def)
  have b: "columns (clean_data str df) = columns df"
    by (auto simp: clean_data_def columns_def)
  have c: "''_id'' \<notin> set (columns df) \<longrightarrow> clean_data str df = df"
    by (simp add: clean_data_def)
  have d: "\<forall>j < length (cols df).
        cols (clean_data str df) ! j =
          (if fst (cols df ! j) = ''_id''
           then (''_id'', map (\<lambda>x. Str (str x)) (snd (cols df ! j)))
           else cols df ! j)"
  proof (intro allI impI)
    fix j assume j: "j < length (cols df)"
    obtain name xs where p: "cols df ! j = (name, xs)" by (cases "cols df ! j")
    show "cols (clean_data str df) ! j =
          (if fst (cols df ! j) = ''_id''
           then (''_id'', map (\<lambda>x. Str (str x)) (snd (cols df ! j)))
           else cols df ! j)"
    proof (cases "''_id'' \<in> set (columns df)")
      case True
      with j p show ?thesis by (simp add: clean_data_def astype_str_def)
    next
      case False
      with j have "fst (cols df ! j) \<noteq> ''_id''"
        by (metis columns_def nth_map nth_mem length_map)
      with False show ?thesis by (simp add: clean_data_def)
    qed
  qed
  from a b c d show ?thesis by blast
qed

text \<open>The theorem at a frame without \<open>_id\<close> and at the three orders.\<close>

theorem clean_data_touches_only_id_witness:
  "''_id'' \<notin> set (columns plain_frame)
   \<and> clean_data example_str plain_frame = plain_frame
   \<and> 2 < length (cols (DataFrame orders))
   \<and> cols (clean_data example_str (DataFrame orders)) ! 2 = cols (DataFrame orders) ! 2
   \<and> cols (clean_data example_str (DataFrame orders)) ! 0 =
       (''_id'', [Str ''65a1f0c2e4b0a1b2c3d4e5f6'', Str ''65a1f0c2e4b0a1b2c3d4e5f7'',
                 Str ''65a1f0c2e4b0a1b2c3d4e5f8''])"
proof -
  have p: "''_id'' \<notin> set (columns plain_frame)"
    by (simp add: columns_def plain_frame_def)
  have c: "cols (DataFrame orders) =
      [(''_id'', [ObjectId ''65a1f0c2e4b0a1b2c3d4e5f6'', ObjectId ''65a1f0c2e4b0a1b2c3d4e5f7'',
                 ObjectId ''65a1f0c2e4b0a1b2c3d4e5f8'']),
       (''status'', [Str ''ACTIVE'', nan, Str ''ACTIVE'']),
       (''owner'', [ObjectId ''5f43a1b2c3d4e5f607182930'', ObjectId ''5f43a1b2c3d4e5f607182931'',
                   nan]),
       (''qty'', [nan, nan, Integer 3])]"
    by (simp add: DataFrame_def orders_def cell_def)
  from clean_data_touches_only_id [of example_str plain_frame]
       clean_data_touches_only_id [of example_str "DataFrame orders"] p c
  show ?thesis by simp
qed

end
